theory Spec2Isabelle
  imports Complex_Main "HOL-Library.Word" "HOL-Library.Multiset"
begin

section \<open>The item list of \<^verbatim>\<open>src/App.tsx\<close>\<close>

text \<open>
  The component \<^verbatim>\<open>App\<close> keeps a list of items in React state, together with a form
  (\<^verbatim>\<open>FormProvider\<close>) and the settings of the rendered view. Every handler runs to its end
  before the next event is taken, so a handler is a function from the state of one render
  to the state of the next. The closure variables a handler reads (\<^verbatim>\<open>items\<close>,
  \<^verbatim>\<open>nome\<close>, ...) are the state of the render in which the event fires.
\<close>

subsection \<open>Data\<close>

text \<open>
  A JavaScript string is a sequence of UTF-16 code units, and \<^verbatim>\<open>.length\<close> counts them.
  \<open>str\<close> writes a string of code units below 256 as a literal.
\<close>

type_synonym jsstring = "16 word list"

definition str :: "string \<Rightarrow> jsstring" where
  "str s = map of_char s"

text \<open>
  \<^verbatim>\<open>type Priority\<close>, a union of three string literals: \<^verbatim>\<open>"baixa"\<close>, the word for
  medium, and \<^verbatim>\<open>"alta"\<close>.
\<close>

datatype Priority = Baixa | Media | Alta

text \<open>
  \<^verbatim>\<open>type Item\<close>. The field \<^verbatim>\<open>id\<close> is \<open>item_id\<close> here (\<open>id\<close> is the identity function
  of HOL), and the other fields carry the same prefix. The optional
  \<^verbatim>\<open>data_modificacao\<close> is \<open>None\<close> when the property is absent.
\<close>

record Item =
  item_id :: int
  item_nome :: jsstring
  item_descricao :: jsstring
  item_data_criacao :: jsstring
  item_data_modificacao :: "jsstring option"
  item_prioridade :: Priority

datatype SortOrder = Asc | Desc

datatype ActiveFilter = ByPriority | ByName | ByDate

text \<open>
  The \<^verbatim>\<open>useState\<close> cells of \<^verbatim>\<open>FormProvider\<close> (\<open>nome\<close> to \<open>isValid\<close>) and of
  \<^verbatim>\<open>App\<close> (\<open>items\<close> to \<open>showModal\<close>). \<open>filterPriority\<close> is \<open>None\<close> for the empty
  string of \<^verbatim>\<open>Priority | ''\<close>, \<open>editId\<close> is \<open>None\<close> for \<^verbatim>\<open>null\<close>.
\<close>

record app_state =
  nome :: jsstring
  descricao :: jsstring
  prioridade :: Priority
  editId :: "int option"
  isValid :: bool
  items :: "Item list"
  currentPage :: int
  filterPriority :: "Priority option"
  sortOrder :: SortOrder
  activeFilter :: ActiveFilter
  searchName :: jsstring
  showModal :: bool

text \<open>The initial values of the \<^verbatim>\<open>useState\<close> calls, with the stored items as loaded.\<close>

definition initial_state :: "Item list \<Rightarrow> app_state" where
  "initial_state stored =
     \<lparr>nome = [], descricao = [], prioridade = Baixa, editId = None, isValid = True,
      items = stored, currentPage = 1, filterPriority = None, sortOrder = Asc,
      activeFilter = ByPriority, searchName = [], showModal = False\<rparr>"

subsection \<open>Form\<close>

text \<open>
  \<^verbatim>\<open>validate\<close> (lines 48-52) stores its result in \<open>isValid\<close> and returns it.
\<close>

definition validate :: "app_state \<Rightarrow> bool \<times> app_state" where
  "validate st =
     (let valid = (3 \<le> length (nome st) \<and> 3 \<le> length (descricao st))
      in (valid, st\<lparr>isValid := valid\<rparr>))"

text \<open>\<^verbatim>\<open>clearForm\<close> (lines 119-125).\<close>

definition clearForm :: "app_state \<Rightarrow> app_state" where
  "clearForm st =
     st\<lparr>nome := [], descricao := [], prioridade := Baixa, editId := None,
        showModal := False\<rparr>"

text \<open>\<^verbatim>\<open>startEdit\<close> (lines 131-137).\<close>

definition startEdit :: "Item \<Rightarrow> app_state \<Rightarrow> app_state" where
  "startEdit item st =
     st\<lparr>nome := item_nome item, descricao := item_descricao item,
        prioridade := item_prioridade item, editId := Some (item_id item),
        showModal := True\<rparr>"

subsection \<open>Add, update, delete\<close>

text \<open>
  \<^verbatim>\<open>addItem\<close> and \<^verbatim>\<open>updateItem\<close> return nothing; what a caller can observe is which of
  their two exits was taken: the early \<^verbatim>\<open>return\<close> of the guard, or the end of the body
  after \<^verbatim>\<open>setItems\<close> and \<^verbatim>\<open>clearForm\<close>.
\<close>

datatype outcome = Returned_early | Committed

text \<open>
  \<^verbatim>\<open>addItem\<close> (lines 94-106). \<open>now\<close> is the string \<^verbatim>\<open>new Date().toString()\<close> gives when the
  handler runs.
\<close>

definition addItem :: "jsstring \<Rightarrow> app_state \<Rightarrow> outcome \<times> app_state" where
  "addItem now st =
     (case validate st of (valid, st1) \<Rightarrow>
        if \<not> valid then (Returned_early, st1)
        else
          let newItem = \<lparr>item_id = int (length (items st)) + 1,
                         item_nome = nome st,
                         item_descricao = descricao st,
                         item_data_criacao = now,
                         item_data_modificacao = None,
                         item_prioridade = prioridade st\<rparr>
          in (Committed, clearForm (st1\<lparr>items := items st1 @ [newItem]\<rparr>)))"

text \<open>
  \<^verbatim>\<open>updateItem\<close> (lines 108-117). The guard is \<^verbatim>\<open>!validate() || editId === null\<close>, so
  \<^verbatim>\<open>validate\<close> runs in every case.
\<close>

definition updateItem :: "jsstring \<Rightarrow> app_state \<Rightarrow> outcome \<times> app_state" where
  "updateItem now st =
     (case validate st of (valid, st1) \<Rightarrow>
        if \<not> valid \<or> editId st = None then (Returned_early, st1)
        else (Committed,
              clearForm (st1\<lparr>items :=
                map (\<lambda>item. if Some (item_id item) = editId st
                             then item\<lparr>item_nome := nome st,
                                       item_descricao := descricao st,
                                       item_prioridade := prioridade st,
                                       item_data_modificacao := Some now\<rparr>
                             else item)
                    (items st1)\<rparr>)))"

text \<open>\<^verbatim>\<open>deleteItem\<close> (lines 127-129).\<close>

definition deleteItem :: "int \<Rightarrow> app_state \<Rightarrow> app_state" where
  "deleteItem i st = st\<lparr>items := filter (\<lambda>item. item_id item \<noteq> i) (items st)\<rparr>"

subsection \<open>What the platform provides\<close>

text \<open>
  The view calls built-ins whose results depend on the JavaScript engine and its locale
  data: \<^verbatim>\<open>String.prototype.toLowerCase\<close>, \<^verbatim>\<open>String.prototype.localeCompare\<close>, the
  parsing of a date string by \<^verbatim>\<open>new Date(s).getTime()\<close>, and the order
  \<^verbatim>\<open>Array.prototype.sort\<close> produces where the standard leaves it to the engine
  (\<open>engineSort\<close>, see \<open>array_sort\<close> below). They are parameters of the model. \<open>getTime\<close>
  is \<open>None\<close> where JavaScript gives \<^verbatim>\<open>NaN\<close> (a string that is not a date); a time value
  is an integer number of milliseconds.
\<close>

record platform =
  toLowerCase :: "jsstring \<Rightarrow> jsstring"
  localeCompare :: "jsstring \<Rightarrow> jsstring \<Rightarrow> int"
  getTime :: "jsstring \<Rightarrow> int option"
  engineSort :: "(Item \<Rightarrow> Item \<Rightarrow> int option) \<Rightarrow> Item list \<Rightarrow> Item list"

text \<open>
  \<^verbatim>\<open>s.includes(sub)\<close>, here \<open>includes_str\<close>: \<open>sub\<close> occurs in \<open>s\<close> as a contiguous
  run of code units.
\<close>

fun startsWith :: "jsstring \<Rightarrow> jsstring \<Rightarrow> bool" where
  "startsWith s [] = True"
| "startsWith [] (c # sub) = False"
| "startsWith (d # s) (c # sub) = (d = c \<and> startsWith s sub)"

fun includes_str :: "jsstring \<Rightarrow> jsstring \<Rightarrow> bool" where
  "includes_str [] sub = startsWith [] sub"
| "includes_str (d # s) sub = (startsWith (d # s) sub \<or> includes_str s sub)"

text \<open>
  \<^verbatim>\<open>Array.prototype.sort(comparefn)\<close>. The comparator returns a number, \<open>None\<close> here for
  \<^verbatim>\<open>NaN\<close>, which the sort reads as \<open>0\<close>. What the standard says about the result depends
  on the comparator.

  \<open>consistent\<close> is the standard's "consistent comparison function" for the values of the
  array: no result is \<^verbatim>\<open>NaN\<close>; \<open>a\<close> equals itself; equality is symmetric and
  transitive; less-than and greater-than are transitive.
\<close>

definition negative :: "int option \<Rightarrow> bool" where
  "negative v = (case v of None \<Rightarrow> False | Some n \<Rightarrow> n < 0)"

definition positive :: "int option \<Rightarrow> bool" where
  "positive v = (case v of None \<Rightarrow> False | Some n \<Rightarrow> 0 < n)"

definition consistent :: "('a \<Rightarrow> 'a \<Rightarrow> int option) \<Rightarrow> 'a list \<Rightarrow> bool" where
  "consistent comparefn xs =
     ((\<forall>a \<in> set xs. \<forall>b \<in> set xs. comparefn a b \<noteq> None)
      \<and> (\<forall>a \<in> set xs. comparefn a a = Some 0)
      \<and> (\<forall>a \<in> set xs. \<forall>b \<in> set xs. comparefn a b = Some 0 \<longrightarrow> comparefn b a = Some 0)
      \<and> (\<forall>a \<in> set xs. \<forall>b \<in> set xs. \<forall>c \<in> set xs.
            comparefn a b = Some 0 \<and> comparefn b c = Some 0 \<longrightarrow> comparefn a c = Some 0)
      \<and> (\<forall>a \<in> set xs. \<forall>b \<in> set xs. \<forall>c \<in> set xs.
            negative (comparefn a b) \<and> negative (comparefn b c) \<longrightarrow> negative (comparefn a c))
      \<and> (\<forall>a \<in> set xs. \<forall>b \<in> set xs. \<forall>c \<in> set xs.
            positive (comparefn a b) \<and> positive (comparefn b c) \<longrightarrow> positive (comparefn a c)))"

text \<open>
  For a consistent comparator the standard fixes the result: the elements in ascending
  order, elements that compare equal in their original order (the sort is stable).
  \<open>stable_sort\<close> computes it by insertion, placing \<open>x\<close> after \<open>y\<close> only when
  \<^verbatim>\<open>comparefn(x, y) > 0\<close>.
\<close>

fun sort_insert :: "('a \<Rightarrow> 'a \<Rightarrow> int option) \<Rightarrow> 'a \<Rightarrow> 'a list \<Rightarrow> 'a list" where
  "sort_insert comparefn x [] = [x]"
| "sort_insert comparefn x (y # ys) =
     (if positive (comparefn x y) then y # sort_insert comparefn x ys else x # y # ys)"

definition stable_sort :: "('a \<Rightarrow> 'a \<Rightarrow> int option) \<Rightarrow> 'a list \<Rightarrow> 'a list" where
  "stable_sort comparefn xs = foldr (sort_insert comparefn) xs []"

text \<open>\<open>ys\<close> holds the elements of \<open>xs\<close>, each as often, in some order.\<close>

fun is_rearrangement :: "'a list \<Rightarrow> 'a list \<Rightarrow> bool" where
  "is_rearrangement [] ys = (ys = [])"
| "is_rearrangement (x # xs) ys = (x \<in> set ys \<and> is_rearrangement xs (remove1 x ys))"

text \<open>
  For a comparator that is not consistent the standard leaves the order to the engine
  ("implementation-defined"); the array still holds the same elements afterwards. The
  order is then the one the parameter \<open>engine\<close> gives. A value of the parameter that
  drops or invents elements is not an engine, and \<open>array_sort\<close> does not follow it.
\<close>

definition array_sort ::
  "(('a \<Rightarrow> 'a \<Rightarrow> int option) \<Rightarrow> 'a list \<Rightarrow> 'a list)
   \<Rightarrow> ('a \<Rightarrow> 'a \<Rightarrow> int option) \<Rightarrow> 'a list \<Rightarrow> 'a list" where
  "array_sort engine comparefn xs =
     (if consistent comparefn xs then stable_sort comparefn xs
      else if is_rearrangement (engine comparefn xs) xs then engine comparefn xs
      else stable_sort comparefn xs)"

text \<open>
  The sort of the V8 engine (Node, Chrome) for an array of fewer than 64 elements, from
  \<^verbatim>\<open>third_party/v8/builtins/array-sort.tq\<close>. \<^verbatim>\<open>CountAndMakeRun\<close> takes the longest run at
  the start of the array: descending if \<^verbatim>\<open>comparefn(a[1], a[0]) < 0\<close>, and then reversed
  in place; ascending otherwise. \<^verbatim>\<open>BinaryInsertionSort\<close> inserts each later element into
  the part before it, at the position a binary search gives. For 64 elements and more
  V8 cuts the array into several runs and merges them, which is not modelled: \<open>v8_sort\<close>
  is V8's result for the short arrays of the examples only.
\<close>

fun run_tail :: "('a \<Rightarrow> 'a \<Rightarrow> int option) \<Rightarrow> bool \<Rightarrow> 'a \<Rightarrow> 'a list \<Rightarrow> nat" where
  "run_tail comparefn isDescending previousElement [] = 0"
| "run_tail comparefn isDescending previousElement (currentElement # rest) =
     (if (if isDescending
          then \<not> negative (comparefn currentElement previousElement)
          else negative (comparefn currentElement previousElement))
      then 0
      else Suc (run_tail comparefn isDescending currentElement rest))"

function binary_search ::
  "('a \<Rightarrow> 'a \<Rightarrow> int option) \<Rightarrow> 'a \<Rightarrow> 'a list \<Rightarrow> nat \<Rightarrow> nat \<Rightarrow> nat" where
  "binary_search comparefn pivot a left right =
     (if left < right
      then let mid = left + (right - left) div 2
           in if negative (comparefn pivot (a ! mid))
              then binary_search comparefn pivot a left mid
              else binary_search comparefn pivot a (mid + 1) right
      else left)"
  by pat_completeness auto
termination
  by (relation "measure (\<lambda>(comparefn, pivot, a, left, right). right - left)") auto

definition insert_pivot :: "('a \<Rightarrow> 'a \<Rightarrow> int option) \<Rightarrow> nat \<Rightarrow> 'a list \<Rightarrow> 'a list" where
  "insert_pivot comparefn start a =
     (let pivot = a ! start;
          left = binary_search comparefn pivot a 0 start
      in take left a @ [pivot] @ drop left (take start a) @ drop (start + 1) a)"

definition v8_sort :: "('a \<Rightarrow> 'a \<Rightarrow> int option) \<Rightarrow> 'a list \<Rightarrow> 'a list" where
  "v8_sort comparefn xs =
     (case xs of
        elementHigh # elementLow # rest \<Rightarrow>
          let isDescending = negative (comparefn elementLow elementHigh);
              runLength = 2 + run_tail comparefn isDescending elementLow rest;
              a = (if isDescending then rev (take runLength xs) @ drop runLength xs else xs)
          in fold (insert_pivot comparefn) [runLength ..< length xs] a
      | _ \<Rightarrow> xs)"

text \<open>
  \<^verbatim>\<open>Array.prototype.slice(start, end)\<close> with integer arguments (\<open>fin\<close> is the
  \<^verbatim>\<open>end\<close> of JavaScript): a negative index counts from the end of the array, and both
  are clamped to the array.
\<close>

definition array_slice :: "int \<Rightarrow> int \<Rightarrow> 'a list \<Rightarrow> 'a list" where
  "array_slice start fin xs =
     (let len = int (length xs);
          k = (if start < 0 then max (len + start) 0 else min start len);
          final = (if fin < 0 then max (len + fin) 0 else min fin len)
      in take (nat (final - k)) (drop (nat k) xs))"

subsection \<open>The view\<close>

text \<open>\<^verbatim>\<open>const itemsPerPage = 10\<close> and the two indices of lines 139-140.\<close>

definition itemsPerPage :: int where
  "itemsPerPage = 10"

definition indexOfLastItem :: "app_state \<Rightarrow> int" where
  "indexOfLastItem st = currentPage st * itemsPerPage"

definition indexOfFirstItem :: "app_state \<Rightarrow> int" where
  "indexOfFirstItem st = indexOfLastItem st - itemsPerPage"

text \<open>
  The callback of \<^verbatim>\<open>items.filter\<close> (lines 142-145). An empty \<^verbatim>\<open>filterPriority\<close> or
  \<^verbatim>\<open>searchName\<close> is falsy and switches its conjunct off. \<^verbatim>\<open>activeFilter\<close> is not read.
\<close>

definition filterCallback :: "platform \<Rightarrow> app_state \<Rightarrow> Item \<Rightarrow> bool" where
  "filterCallback pf st item =
     ((case filterPriority st of
         Some p \<Rightarrow> item_prioridade item = p
       | None \<Rightarrow> True)
      \<and> (if searchName st \<noteq> []
         then includes_str (toLowerCase pf (item_nome item)) (toLowerCase pf (searchName st))
         else True))"

text \<open>The comparators of lines 148 and 152-156.\<close>

definition compareNome :: "platform \<Rightarrow> Item \<Rightarrow> Item \<Rightarrow> int option" where
  "compareNome pf a b = Some (localeCompare pf (item_nome a) (item_nome b))"

definition compareData :: "platform \<Rightarrow> SortOrder \<Rightarrow> Item \<Rightarrow> Item \<Rightarrow> int option" where
  "compareData pf order a b =
     (case (getTime pf (item_data_criacao a), getTime pf (item_data_criacao b)) of
        (Some dateA, Some dateB) \<Rightarrow>
          Some (if order = Asc then dateA - dateB else dateB - dateA)
      | _ \<Rightarrow> None)"

text \<open>\<^verbatim>\<open>filteredItems\<close> as it stands after line 157.\<close>

definition filteredItems :: "platform \<Rightarrow> app_state \<Rightarrow> Item list" where
  "filteredItems pf st =
     (let f0 = filter (filterCallback pf st) (items st);
          f1 = (if activeFilter st = ByName
                then array_sort (engineSort pf) (compareNome pf) f0 else f0);
          f2 = (if activeFilter st = ByDate
                then array_sort (engineSort pf) (compareData pf (sortOrder st)) f1 else f1)
      in f2)"

text \<open>\<^verbatim>\<open>totalPages\<close> and \<^verbatim>\<open>currentItems\<close> (lines 159-160).\<close>

definition totalPages :: "platform \<Rightarrow> app_state \<Rightarrow> int" where
  "totalPages pf st = \<lceil>real (length (filteredItems pf st)) / real_of_int itemsPerPage\<rceil>"

definition currentItems :: "platform \<Rightarrow> app_state \<Rightarrow> Item list" where
  "currentItems pf st =
     array_slice (indexOfFirstItem st) (indexOfLastItem st) (filteredItems pf st)"


subsection \<open>The view over a store of arrays\<close>

text \<open>
  \<^verbatim>\<open>sort\<close> reorders the array it is called on and returns that same array, while
  \<^verbatim>\<open>filter\<close> and \<^verbatim>\<open>slice\<close> build a new one. Whether rendering touches the array held
  in the \<^verbatim>\<open>items\<close> state therefore depends on which array each call receives. The
  store makes this explicit: it is the list of all arrays allocated so far, and a
  reference is a position in it.
\<close>

type_synonym ref = nat

type_synonym store = "Item list list"

definition store_filter :: "(Item \<Rightarrow> bool) \<Rightarrow> ref \<Rightarrow> store \<Rightarrow> ref \<times> store" where
  "store_filter callback r h = (length h, h @ [filter callback (h ! r)])"

definition store_sort ::
  "platform \<Rightarrow> (Item \<Rightarrow> Item \<Rightarrow> int option) \<Rightarrow> ref \<Rightarrow> store \<Rightarrow> ref \<times> store" where
  "store_sort pf comparefn r h =
     (r, h[r := array_sort (engineSort pf) comparefn (h ! r)])"

definition store_slice :: "int \<Rightarrow> int \<Rightarrow> ref \<Rightarrow> store \<Rightarrow> ref \<times> store" where
  "store_slice start fin r h = (length h, h @ [array_slice start fin (h ! r)])"

text \<open>
  Lines 139-160 of the body of \<^verbatim>\<open>App\<close>, with the \<^verbatim>\<open>items\<close> array at \<open>itemsRef\<close>.
  The settings are read from \<open>st\<close>; its field \<open>items\<close> is not used here. The result is
  the references of \<^verbatim>\<open>filteredItems\<close> and \<^verbatim>\<open>currentItems\<close>, the value of
  \<^verbatim>\<open>totalPages\<close>, and the store afterwards.
\<close>

definition render :: "platform \<Rightarrow> app_state \<Rightarrow> ref \<Rightarrow> store \<Rightarrow> (ref \<times> int \<times> ref) \<times> store" where
  "render pf st itemsRef h =
     (case store_filter (filterCallback pf st) itemsRef h of (filtered0, h1) \<Rightarrow>
      case (if activeFilter st = ByName
            then store_sort pf (compareNome pf) filtered0 h1
            else (filtered0, h1)) of (filtered1, h2) \<Rightarrow>
      case (if activeFilter st = ByDate
            then store_sort pf (compareData pf (sortOrder st)) filtered1 h2
            else (filtered1, h2)) of (filtered2, h3) \<Rightarrow>
      let pages = \<lceil>real (length (h3 ! filtered2)) / real_of_int itemsPerPage\<rceil>
      in case store_slice (indexOfFirstItem st) (indexOfLastItem st) filtered2 h3 of
           (current, h4) \<Rightarrow> ((filtered2, pages, current), h4))"

subsection \<open>Events\<close>

text \<open>
  The handlers the markup attaches: the \<^verbatim>\<open>onChange\<close> of the three form inputs, the
  buttons \<^verbatim>\<open>Adicionar Item\<close>, \<^verbatim>\<open>Atualizar Item\<close>, \<^verbatim>\<open>Cancelar\<close>, \<^verbatim>\<open>Excluir Item\<close> and
  \<^verbatim>\<open>Editar Item\<close>, the controls of the three filter modes, and the two page buttons.
  The two clicks that read the clock carry its reading.
\<close>

datatype event =
    ChangeNome jsstring
  | ChangeDescricao jsstring
  | ChangePrioridade Priority
  | ClickAdicionar jsstring
  | ClickAtualizar jsstring
  | ClickCancelar
  | ClickExcluir int
  | ClickEditar Item
  | ChooseActiveFilter ActiveFilter
  | ChangeFilterPriority "Priority option"
  | ChangeSearchName jsstring
  | ChangeSortOrder SortOrder
  | ClickAnterior
  | ClickProxima

fun handle :: "platform \<Rightarrow> event \<Rightarrow> app_state \<Rightarrow> app_state" where
  "handle pf (ChangeNome v) st = st\<lparr>nome := v\<rparr>"
| "handle pf (ChangeDescricao v) st = st\<lparr>descricao := v\<rparr>"
| "handle pf (ChangePrioridade v) st = st\<lparr>prioridade := v\<rparr>"
| "handle pf (ClickAdicionar now) st = snd (addItem now st)"
| "handle pf (ClickAtualizar now) st = snd (updateItem now st)"
| "handle pf ClickCancelar st = clearForm st"
| "handle pf (ClickExcluir i) st = deleteItem i st"
| "handle pf (ClickEditar item) st = startEdit item st"
| "handle pf (ChooseActiveFilter v) st = st\<lparr>activeFilter := v\<rparr>"
| "handle pf (ChangeFilterPriority v) st = st\<lparr>filterPriority := v\<rparr>"
| "handle pf (ChangeSearchName v) st = st\<lparr>searchName := v\<rparr>"
| "handle pf (ChangeSortOrder v) st = st\<lparr>sortOrder := v\<rparr>"
| "handle pf ClickAnterior st = st\<lparr>currentPage := max (currentPage st - 1) 1\<rparr>"
| "handle pf ClickProxima st =
     st\<lparr>currentPage := min (currentPage st + 1) (totalPages pf st)\<rparr>"

text \<open>A session: the events in the order they fire.\<close>

definition run :: "platform \<Rightarrow> event list \<Rightarrow> app_state \<Rightarrow> app_state" where
  "run pf evs st = fold (handle pf) evs st"

text \<open>How many of the clicks on \<^verbatim>\<open>Adicionar Item\<close> in a session reach the end of \<^verbatim>\<open>addItem\<close>.\<close>

fun committed_adds :: "platform \<Rightarrow> event list \<Rightarrow> app_state \<Rightarrow> nat" where
  "committed_adds pf [] st = 0"
| "committed_adds pf (ev # evs) st =
     (case ev of
        ClickAdicionar now \<Rightarrow> (if fst (addItem now st) = Committed then 1 else 0)
      | _ \<Rightarrow> 0)
     + committed_adds pf evs (handle pf ev st)"

subsection \<open>A platform to compute with\<close>

text \<open>
  For closed examples. \<open>toLowerCase\<close> lower-cases the letters A to Z, and \<open>getTime\<close>
  knows the time values of two date strings in the format of
  \<^verbatim>\<open>Date.prototype.toString\<close> and takes every other string, \<open>no_date\<close> among them, for
  no date: on the names and dates of the examples below this is what an engine
  computes. The engine's sort is V8's; the arrays of the examples are short. No example
  sorts by name; for \<open>localeCompare\<close> the comparison of code units stands in.
\<close>

definition late_date :: jsstring where
  "late_date = str ''Tue Nov 03 2026 00:00:00 GMT+0000 (Coordinated Universal Time)''"

definition early_date :: jsstring where
  "early_date = str ''Mon Nov 02 2026 00:00:00 GMT+0000 (Coordinated Universal Time)''"

definition no_date :: jsstring where
  "no_date = str ''not a date''"

fun compare_units :: "jsstring \<Rightarrow> jsstring \<Rightarrow> int" where
  "compare_units [] [] = 0"
| "compare_units [] (d # t) = - 1"
| "compare_units (c # s) [] = 1"
| "compare_units (c # s) (d # t) =
     (if c < d then - 1 else if d < c then 1 else compare_units s t)"

definition example_platform :: platform where
  "example_platform =
     \<lparr>toLowerCase = map (\<lambda>c. if 65 \<le> c \<and> c \<le> 90 then c + 32 else c),
      localeCompare = compare_units,
      getTime = (\<lambda>s. if s = late_date then Some 1793664000000
                      else if s = early_date then Some 1793577600000
                      else None),
      engineSort = v8_sort\<rparr>"

subsection \<open>Example states\<close>

text \<open>Three stored items; the first and the third were created at the same moment.\<close>

definition item_a :: Item where
  "item_a = \<lparr>item_id = 1, item_nome = str ''Task A'', item_descricao = str ''desc one'',
             item_data_criacao = late_date, item_data_modificacao = None,
             item_prioridade = Media\<rparr>"

definition item_b :: Item where
  "item_b = \<lparr>item_id = 2, item_nome = str ''Task B'', item_descricao = str ''desc two'',
             item_data_criacao = early_date, item_data_modificacao = None,
             item_prioridade = Alta\<rparr>"

definition item_c :: Item where
  "item_c = \<lparr>item_id = 3, item_nome = str ''Task C'', item_descricao = str ''desc three'',
             item_data_criacao = late_date, item_data_modificacao = None,
             item_prioridade = Baixa\<rparr>"

text \<open>The three items with the date mode active.\<close>

definition dated_view :: "SortOrder \<Rightarrow> app_state" where
  "dated_view order =
     (initial_state [item_a, item_b, item_c])\<lparr>activeFilter := ByDate, sortOrder := order\<rparr>"

text \<open>A form whose two texts are too short.\<close>

definition short_form :: app_state where
  "short_form = (initial_state [])\<lparr>nome := str ''Hi'', descricao := str ''ok''\<rparr>"

text \<open>
  Seven stored items, as \<^verbatim>\<open>JSON.parse\<close> may load them: the third was created on the
  later day, the fifth carries a string that is no date, the others were created at the
  same moment of the earlier day.
\<close>

definition stored_item :: "int \<Rightarrow> jsstring \<Rightarrow> Item" where
  "stored_item i date =
     \<lparr>item_id = i, item_nome = str ''Task'', item_descricao = str ''desc'',
      item_data_criacao = date, item_data_modificacao = None, item_prioridade = Baixa\<rparr>"

definition seven_items :: "Item list" where
  "seven_items =
     [stored_item 1 early_date, stored_item 2 early_date, stored_item 3 late_date,
      stored_item 4 early_date, stored_item 5 no_date, stored_item 6 early_date,
      stored_item 7 early_date]"

definition seven_by_date :: app_state where
  "seven_by_date = (initial_state seven_items)\<lparr>activeFilter := ByDate\<rparr>"

text \<open>
  An empty list, the next-page button clicked, then one item added; and the edit form
  opened on \<open>item_b\<close> through the list, with a name typed in.
\<close>

definition page_zero_session :: "event list" where
  "page_zero_session =
     [ClickProxima,
      ChangeNome (str ''Task A''), ChangeDescricao (str ''desc one''),
      ClickAdicionar early_date]"


text \<open>A session that adds two items, with one rejected click in between.\<close>

definition two_tasks :: "event list" where
  "two_tasks =
     [ChangeNome (str ''Task A''), ChangeDescricao (str ''desc one''), ChangePrioridade Media,
      ClickAdicionar early_date,
      ChangeNome (str ''Hi''), ClickAdicionar early_date,
      ChangeNome (str ''Task B''), ChangeDescricao (str ''desc two''),
      ClickAdicionar late_date]"

text \<open>
  Filling the form and adding; and the session add, add, delete 1, add, which ends with
  two items of id 2 (the third add sees a list of length 1).
\<close>

definition task :: "string \<Rightarrow> event list" where
  "task n = [ChangeNome (str n), ChangeDescricao (str ''desc''), ClickAdicionar early_date]"

definition twins :: app_state where
  "twins =
     run example_platform
       (task ''Task A'' @ task ''Task B'' @ [ClickExcluir 1] @ task ''Task C'')
       (initial_state [])"

definition twins_edit :: app_state where
  "twins_edit =
     run example_platform [ClickEditar (items twins ! 0), ChangeNome (str ''Renamed'')] twins"

text \<open>
  Two stored items of id 2 whose creation date is later than the clock reading of the
  update applied to them, with the form open on id 2.
\<close>

definition late_twins :: app_state where
  "late_twins =
     (initial_state [item_b\<lparr>item_data_criacao := late_date\<rparr>, item_c\<lparr>item_id := 2\<rparr>])
       \<lparr>nome := str ''Renamed'', descricao := str ''desc'', editId := Some 2\<rparr>"

text \<open>The edit form opened on \<open>item_b\<close>, with a new name typed in.\<close>

definition edit_b :: app_state where
  "edit_b =
     (startEdit item_b (initial_state [item_a, item_b, item_c]))\<lparr>nome := str ''Renamed''\<rparr>"


text \<open>The ids of the stored items are 1, 2, ... in list order.\<close>

definition ids_in_sequence :: "app_state \<Rightarrow> bool" where
  "ids_in_sequence st = (\<forall>k < length (items st). item_id (items st ! k) = int k + 1)"

section \<open>Properties\<close>

subsection \<open>Auxiliary facts\<close>

lemma fst_addItem:
  "fst (addItem now st) =
     (if 3 \<le> length (nome st) \<and> 3 \<le> length (descricao st)
      then Committed else Returned_early)"
  by (simp add: addItem_def validate_def Let_def)

lemma items_addItem:
  "items (snd (addItem now st)) =
     (if 3 \<le> length (nome st) \<and> 3 \<le> length (descricao st)
      then items st @ [\<lparr>item_id = int (length (items st)) + 1, item_nome = nome st,
                        item_descricao = descricao st, item_data_criacao = now,
                        item_data_modificacao = None, item_prioridade = prioridade st\<rparr>]
      else items st)"
  by (simp add: addItem_def validate_def clearForm_def Let_def)

lemma fst_updateItem:
  "fst (updateItem now st) =
     (if 3 \<le> length (nome st) \<and> 3 \<le> length (descricao st) \<and> editId st \<noteq> None
      then Committed else Returned_early)"
  by (simp add: updateItem_def validate_def Let_def)

lemma items_updateItem:
  "items (snd (updateItem now st)) =
     (if 3 \<le> length (nome st) \<and> 3 \<le> length (descricao st) \<and> editId st \<noteq> None
      then map (\<lambda>item. if Some (item_id item) = editId st
                        then item\<lparr>item_nome := nome st, item_descricao := descricao st,
                                  item_prioridade := prioridade st,
                                  item_data_modificacao := Some now\<rparr>
                        else item)
               (items st)
      else items st)"
  by (simp add: updateItem_def validate_def clearForm_def Let_def)

lemma early_not_late: "early_date \<noteq> late_date"
  by (simp add: early_date_def late_date_def str_def)

lemma not_dates: "no_date \<noteq> late_date" "no_date \<noteq> early_date"
  by (simp_all add: early_date_def late_date_def no_date_def str_def)

lemmas form_simps =
  addItem_def updateItem_def validate_def clearForm_def deleteItem_def startEdit_def run_def
  str_def

lemmas example_simps =
  initial_state_def example_platform_def filteredItems_def filterCallback_def array_sort_def
  stable_sort_def consistent_def compareData_def compareNome_def positive_def negative_def
  early_not_late item_a_def item_b_def item_c_def



subsection \<open>Validation\<close>



subsection \<open>Id assignment\<close>

lemma ids_addItem: "ids_in_sequence st \<Longrightarrow> ids_in_sequence (snd (addItem now st))"
  by (auto simp: ids_in_sequence_def items_addItem nth_append less_Suc_eq)

lemma ids_updateItem: "ids_in_sequence st \<Longrightarrow> ids_in_sequence (snd (updateItem now st))"
  by (auto simp: ids_in_sequence_def items_updateItem)

lemma ids_handle:
  assumes "ids_in_sequence st" and "\<forall>i. ev \<noteq> ClickExcluir i"
  shows "ids_in_sequence (handle pf ev st)"
proof (cases ev)
  case (ClickAdicionar now)
  with assms show ?thesis by (simp add: ids_addItem)
next
  case (ClickAtualizar now)
  with assms show ?thesis by (simp add: ids_updateItem)
next
  case (ClickExcluir i)
  with assms show ?thesis by simp
qed (use assms in \<open>simp_all add: ids_in_sequence_def clearForm_def startEdit_def\<close>)

lemma length_handle:
  assumes "\<forall>i. ev \<noteq> ClickExcluir i"
  shows "length (items (handle pf ev st)) = length (items st) + committed_adds pf [ev] st"
proof (cases ev)
  case (ClickAdicionar now)
  then show ?thesis by (simp add: items_addItem fst_addItem)
next
  case (ClickAtualizar now)
  then show ?thesis by (simp add: items_updateItem)
next
  case (ClickExcluir i)
  with assms show ?thesis by simp
qed (simp_all add: clearForm_def startEdit_def)

lemma run_invariant:
  assumes "\<forall>i. ClickExcluir i \<notin> set evs" and "ids_in_sequence st"
  shows "ids_in_sequence (run pf evs st)
         \<and> length (items (run pf evs st)) = length (items st) + committed_adds pf evs st"
  using assms
proof (induction evs arbitrary: st)
  case Nil
  then show ?case by (simp add: run_def)
next
  case (Cons ev evs)
  have no_delete: "\<forall>i. ev \<noteq> ClickExcluir i" using Cons.prems(1) by auto
  have rest: "\<forall>i. ClickExcluir i \<notin> set evs" using Cons.prems(1) by auto
  have inv: "ids_in_sequence (handle pf ev st)"
    using Cons.prems(2) no_delete by (rule ids_handle)
  have len: "length (items (handle pf ev st)) = length (items st) + committed_adds pf [ev] st"
    using no_delete by (rule length_handle)
  from Cons.IH [OF rest inv] len show ?case
    by (simp add: run_def)
qed

text \<open>
  Claim C2. Take any session that starts with no items and in which \<^verbatim>\<open>Excluir Item\<close> is
  never clicked; form edits, rejected clicks, updates, cancels and view changes may come
  between the adds. Afterwards the list holds as many items as there were successful
  adds, and the item at position \<open>k\<close> (counting from 1) has id \<open>k\<close>. Each successful add
  appends one item at the end, with id one more than the length of the list it saw, the
  three form values, the clock reading as creation date, and no modification date.
\<close>

theorem ids_follow_insertion:
  "(items st = [] \<and> (\<forall>i. ClickExcluir i \<notin> set evs) \<longrightarrow>
      length (items (run pf evs st)) = committed_adds pf evs st
      \<and> (\<forall>k < length (items (run pf evs st)).
            item_id (items (run pf evs st) ! k) = int k + 1))
   \<and> (fst (addItem now st) = Committed \<longrightarrow>
        (\<exists>newItem. items (snd (addItem now st)) = items st @ [newItem]
           \<and> item_id newItem = int (length (items st)) + 1
           \<and> item_data_modificacao newItem = None
           \<and> item_nome newItem = nome st \<and> item_descricao newItem = descricao st
           \<and> item_prioridade newItem = prioridade st \<and> item_data_criacao newItem = now))"
proof -
  have start: "ids_in_sequence st" if "items st = []"
    using that by (simp add: ids_in_sequence_def)
  have "length (items (run pf evs st)) = committed_adds pf evs st
      \<and> (\<forall>k < length (items (run pf evs st)).
            item_id (items (run pf evs st) ! k) = int k + 1)"
    if "items st = []" and "\<forall>i. ClickExcluir i \<notin> set evs"
    using run_invariant [OF that(2) start [OF that(1)], of pf] that(1)
    by (simp add: ids_in_sequence_def)
  then show ?thesis
    by (auto simp: items_addItem fst_addItem split: if_splits)
qed

text \<open>
  The session \<open>two_tasks\<close>: two of its three clicks on \<^verbatim>\<open>Adicionar Item\<close> succeed, and the
  items get the ids 1 and 2. A single add on a list of one item gives id 2.
\<close>

theorem ids_follow_insertion_witness:
  "items (initial_state []) = [] \<and> (\<forall>i. ClickExcluir i \<notin> set two_tasks)
   \<and> committed_adds example_platform two_tasks (initial_state []) = 2
   \<and> map item_id (items (run example_platform two_tasks (initial_state []))) = [1, 2]
   \<and> map item_nome (items (run example_platform two_tasks (initial_state [])))
       = [str ''Task A'', str ''Task B'']
   \<and> fst (addItem early_date
        ((initial_state [item_a])\<lparr>nome := str ''Task B'', descricao := str ''desc two''\<rparr>))
       = Committed
   \<and> map item_id (items (snd (addItem early_date
        ((initial_state [item_a])\<lparr>nome := str ''Task B'', descricao := str ''desc two''\<rparr>))))
       = [1, 2]"
  using ids_follow_insertion [of "initial_state []" two_tasks example_platform early_date]
    ids_follow_insertion
      [of "(initial_state [item_a])\<lparr>nome := str ''Task B'', descricao := str ''desc two''\<rparr>"
          "[]" example_platform early_date]
  by (simp add: two_tasks_def initial_state_def form_simps item_a_def)

subsection \<open>Update\<close>

text \<open>
  Claim C3, as the code has it. When the form is valid and \<open>editId\<close> is \<open>e\<close>, \<^verbatim>\<open>updateItem\<close>
  keeps the length and the order of the list, and the id and the creation date of every
  item. Every item whose id is \<open>e\<close> gets the name, the description and the priority of
  the form and, as modification date, the clock reading taken by the handler; the code
  does not compare that reading with the creation date. Every item whose id is not \<open>e\<close>
  is left as it was. With no edit target, or one that is the id of no item, no item
  changes.
\<close>

theorem update_frame:
  "(fst (updateItem now st) = Committed \<and> editId st = Some e \<longrightarrow>
      length (items (snd (updateItem now st))) = length (items st)
      \<and> (\<forall>k < length (items st).
            item_id (items (snd (updateItem now st)) ! k) = item_id (items st ! k)
            \<and> item_data_criacao (items (snd (updateItem now st)) ! k)
                = item_data_criacao (items st ! k)
            \<and> (item_id (items st ! k) = e \<longrightarrow>
                 items (snd (updateItem now st)) ! k
                   = (items st ! k)\<lparr>item_nome := nome st, item_descricao := descricao st,
                        item_prioridade := prioridade st,
                        item_data_modificacao := Some now\<rparr>)
            \<and> (item_id (items st ! k) \<noteq> e \<longrightarrow>
                 items (snd (updateItem now st)) ! k = items st ! k)))
   \<and> (editId st = None \<or> (\<forall>e. editId st = Some e \<longrightarrow> e \<notin> item_id ` set (items st)) \<longrightarrow>
        items (snd (updateItem now st)) = items st)"
proof -
  have "map (\<lambda>item. if Some (item_id item) = editId st
                     then item\<lparr>item_nome := nome st, item_descricao := descricao st,
                               item_prioridade := prioridade st,
                               item_data_modificacao := Some now\<rparr>
                     else item) (items st)
          = items st"
    if "\<forall>e. editId st = Some e \<longrightarrow> e \<notin> item_id ` set (items st)"
  proof (intro map_idI)
    fix x assume "x \<in> set (items st)"
    then have "Some (item_id x) \<noteq> editId st" using that by (metis imageI)
    then show "(if Some (item_id x) = editId st
                then x\<lparr>item_nome := nome st, item_descricao := descricao st,
                       item_prioridade := prioridade st, item_data_modificacao := Some now\<rparr>
                else x) = x"
      by simp
  qed
  then show ?thesis
    by (auto simp: items_updateItem fst_updateItem split: if_splits)
qed

text \<open>
  Renaming \<open>item_b\<close> among three items changes that item alone; the same form with the
  target 9, the id of no item, changes none.
\<close>

theorem update_frame_witness:
  "fst (updateItem late_date edit_b) = Committed \<and> editId edit_b = Some 2
   \<and> items (snd (updateItem late_date edit_b))
       = [item_a,
          item_b\<lparr>item_nome := str ''Renamed'', item_data_modificacao := Some late_date\<rparr>,
          item_c]
   \<and> editId (edit_b\<lparr>editId := Some 9\<rparr>) = Some 9
   \<and> map item_id (items (edit_b\<lparr>editId := Some 9\<rparr>)) = [1, 2, 3]
   \<and> items (snd (updateItem late_date (edit_b\<lparr>editId := Some 9\<rparr>)))
       = [item_a, item_b, item_c]"
  using update_frame [of late_date edit_b 2]
    update_frame [of late_date "edit_b\<lparr>editId := Some 9\<rparr>" 9]
  by (simp add: edit_b_def initial_state_def form_simps item_a_def item_b_def item_c_def)

text \<open>
  Claim C3 as stated fails in the state \<open>late_twins\<close>. Two items have the id of the edit
  target, and the update changes both, so whichever of them is taken as the edited item,
  another item has changed. The clock reads 2 November 2026 when the handler runs and
  the items carry the creation date 3 November 2026, so the modification date written
  is earlier than the creation date.
\<close>

theorem update_frame_counterexample:
  "fst (updateItem early_date late_twins) = Committed
   \<and> editId late_twins = Some 2 \<and> map item_id (items late_twins) = [2, 2]
   \<and> items (snd (updateItem early_date late_twins)) ! 0 \<noteq> items late_twins ! 0
   \<and> items (snd (updateItem early_date late_twins)) ! 1 \<noteq> items late_twins ! 1
   \<and> item_data_modificacao (items (snd (updateItem early_date late_twins)) ! 0)
       = Some early_date
   \<and> item_data_criacao (items (snd (updateItem early_date late_twins)) ! 0) = late_date
   \<and> getTime example_platform early_date = Some 1793577600000
   \<and> getTime example_platform late_date = Some 1793664000000
   \<and> (1793577600000 :: int) < 1793664000000"
  by (simp add: late_twins_def initial_state_def form_simps item_b_def item_c_def
        example_platform_def early_not_late)


subsection \<open>Pagination\<close>

lemma ceiling_div_10: "\<lceil>real n / 10\<rceil> = (int n + 9) div 10"
proof -
  have "real n / 10 = real_of_int (int n) / real_of_int 10" by simp
  then have "\<lceil>real n / 10\<rceil> = - ((- int n) div 10)"
    by (metis ceiling_divide_eq_div of_int_of_nat_eq of_int_numeral)
  then show ?thesis by presburger
qed

text \<open>
  With \<open>f\<close> items left by the filter, \<open>totalPages\<close> is the ceiling of \<open>f / 10\<close>: the least
  number of pages of 10 that hold \<open>f\<close> items. For \<open>f = 0\<close> that is 0, and the page shown
  is then empty, whatever \<open>currentPage\<close> is.
\<close>

lemma totalPages_div:
  "totalPages pf st = (int (length (filteredItems pf st)) + 9) div 10"
  by (simp add: totalPages_def itemsPerPage_def ceiling_div_10)

lemma totalPages_ceiling:
  "int (length (filteredItems pf st)) \<le> 10 * totalPages pf st
   \<and> 10 * totalPages pf st < int (length (filteredItems pf st)) + 10
   \<and> (length (filteredItems pf st) = 0 \<longrightarrow>
        totalPages pf st = 0 \<and> currentItems pf st = [])"
proof -
  have "length (filteredItems pf st) = 0 \<Longrightarrow> currentItems pf st = []"
    by (simp add: currentItems_def array_slice_def Let_def)
  then show ?thesis by (auto simp: totalPages_div)
qed

text \<open>
  Claim C4 asks for \<open>totalPages = 1\<close> when the filter leaves nothing, page 1 being the one
  valid page. The code computes \<^verbatim>\<open>Math.ceil(0 / 10)\<close>, which is 0, and that breaks the
  page range its own handlers keep (the first page is 1, the previous-page handler is
  \<^verbatim>\<open>Math.max(prev - 1, 1)\<close>, the next-page button is disabled on the last page). With
  nothing stored, the current page 1 differs from the total 0, so the next-page button is
  enabled, and its handler \<^verbatim>\<open>Math.min(prev + 1, totalPages)\<close> moves to page 0. An item
  added there is stored, the total becomes 1, and the page shown is empty.
\<close>

theorem empty_list_page_zero:
  "totalPages example_platform (initial_state []) = 0
   \<and> currentPage (initial_state []) = 1
   \<and> currentPage (handle example_platform ClickProxima (initial_state [])) = 0
   \<and> currentPage (run example_platform page_zero_session (initial_state [])) = 0
   \<and> map item_id (items (run example_platform page_zero_session (initial_state []))) = [1]
   \<and> totalPages example_platform (run example_platform page_zero_session (initial_state []))
       = 1
   \<and> currentItems example_platform (run example_platform page_zero_session (initial_state []))
       = []"
  by (simp add: page_zero_session_def totalPages_div currentItems_def array_slice_def
        indexOfFirstItem_def indexOfLastItem_def itemsPerPage_def filteredItems_def
        filterCallback_def initial_state_def form_simps)

subsection \<open>Filtering\<close>











subsection \<open>Delete\<close>

text \<open>
  Claim C6. Deleting an id twice in a row gives the state that deleting it once gives,
  and deleting an id that no item has gives the state back unchanged.
\<close>

theorem delete_idempotent:
  "deleteItem i (deleteItem i st) = deleteItem i st
   \<and> (i \<notin> item_id ` set (items st) \<longrightarrow> deleteItem i st = st)"
proof -
  have "i \<notin> item_id ` set (items st)
        \<Longrightarrow> filter (\<lambda>item. item_id item \<noteq> i) (items st) = items st"
    by (rule filter_True) auto
  then show ?thesis by (auto simp: deleteItem_def)
qed

text \<open>No item has id 7; deleting id 1 twice leaves \<open>item_b\<close>.\<close>

theorem delete_idempotent_witness:
  "7 \<notin> item_id ` set (items (initial_state [item_a, item_b]))
   \<and> deleteItem 7 (initial_state [item_a, item_b]) = initial_state [item_a, item_b]
   \<and> items (deleteItem 1 (deleteItem 1 (initial_state [item_a, item_b]))) = [item_b]"
  using delete_idempotent [of 7 "initial_state [item_a, item_b]"]
    delete_idempotent [of 1 "initial_state [item_a, item_b]"]
  by (simp add: initial_state_def deleteItem_def item_a_def item_b_def)


subsection \<open>Sorting by date\<close>

lemma filter_sort_insert:
  assumes "\<And>y. P x \<Longrightarrow> P y \<Longrightarrow> \<not> positive (c x y)"
  shows "filter P (sort_insert c x ys) = (if P x then x # filter P ys else filter P ys)"
  using assms by (induction ys) auto

lemma filter_stable_sort:
  assumes "\<And>x y. P x \<Longrightarrow> P y \<Longrightarrow> \<not> positive (c x y)"
  shows "filter P (stable_sort c xs) = filter P xs"
proof (induction xs)
  case Nil
  show ?case by (simp add: stable_sort_def)
next
  case (Cons x xs)
  have "filter P (sort_insert c x (stable_sort c xs))
          = (if P x then x # filter P (stable_sort c xs) else filter P (stable_sort c xs))"
    by (rule filter_sort_insert) (rule assms)
  with Cons show ?case by (simp add: stable_sort_def)
qed

lemma compareData_tie:
  "getTime pf (item_data_criacao x) = getTime pf (item_data_criacao y)
   \<Longrightarrow> \<not> positive (compareData pf order x y)"
  by (simp add: compareData_def positive_def split: option.splits)

lemma compareData_consistent:
  assumes "\<forall>x \<in> set xs. getTime pf (item_data_criacao x) \<noteq> None"
  shows "consistent (compareData pf order) xs"
proof -
  define k where "k x = the (getTime pf (item_data_criacao x))" for x :: Item
  have cmp: "compareData pf order a b = Some (if order = Asc then k a - k b else k b - k a)"
    if a: "a \<in> set xs" and b: "b \<in> set xs" for a b
  proof -
    obtain s where s: "getTime pf (item_data_criacao a) = Some s" using assms a by auto
    obtain t where t: "getTime pf (item_data_criacao b) = Some t" using assms b by auto
    show ?thesis by (simp add: compareData_def k_def s t)
  qed
  show ?thesis
    unfolding consistent_def negative_def positive_def
    by (auto simp: cmp)
qed

lemma array_slice_take_drop: "\<exists>m n. array_slice a b xs = take n (drop m xs)"
  unfolding array_slice_def Let_def by blast

text \<open>
  Claim C7, as the code has it. In the date mode, for either sort order, and when the
  creation date of every item the filter keeps parses as a date (as every date written
  by \<^verbatim>\<open>addItem\<close> does), the items that share a creation time stand in \<open>filteredItems\<close> in
  the order in which they stand in the stored list; this holds for the items with one
  given time value \<open>t\<close> and for the items with one given date string \<open>d\<close>. The page
  shown is a contiguous part of \<open>filteredItems\<close>, so the order carries over to it.
\<close>

theorem date_sort_stable:
  assumes "activeFilter st = ByDate"
    and "\<forall>x \<in> set (items st).
           filterCallback pf st x \<longrightarrow> getTime pf (item_data_criacao x) \<noteq> None"
  shows "filter (\<lambda>x. getTime pf (item_data_criacao x) = t) (filteredItems pf st)
       = filter (\<lambda>x. getTime pf (item_data_criacao x) = t)
           (filter (filterCallback pf st) (items st))
     \<and> filter (\<lambda>x. item_data_criacao x = d) (filteredItems pf st)
       = filter (\<lambda>x. item_data_criacao x = d) (filter (filterCallback pf st) (items st))
     \<and> (\<exists>m n. currentItems pf st = take n (drop m (filteredItems pf st)))"
proof -
  let ?c = "compareData pf (sortOrder st)"
  let ?xs = "filter (filterCallback pf st) (items st)"
  have "consistent ?c ?xs"
    using assms(2) by (intro compareData_consistent) simp
  then have sorted: "filteredItems pf st = stable_sort ?c ?xs"
    using assms(1) by (simp add: filteredItems_def array_sort_def)
  have "filter (\<lambda>x. getTime pf (item_data_criacao x) = t) (stable_sort ?c ?xs)
          = filter (\<lambda>x. getTime pf (item_data_criacao x) = t) ?xs"
    by (rule filter_stable_sort) (simp add: compareData_tie)
  moreover have "filter (\<lambda>x. item_data_criacao x = d) (stable_sort ?c ?xs)
          = filter (\<lambda>x. item_data_criacao x = d) ?xs"
    by (rule filter_stable_sort) (simp add: compareData_tie)
  moreover have "\<exists>m n. currentItems pf st = take n (drop m (filteredItems pf st))"
    unfolding currentItems_def by (rule array_slice_take_drop)
  ultimately show ?thesis using sorted by simp
qed

text \<open>
  \<open>item_a\<close> and \<open>item_c\<close> share the later date, and all three dates parse. Ascending,
  \<open>item_b\<close> comes first; descending, it comes last; \<open>item_a\<close> stays before \<open>item_c\<close> both
  times.
\<close>

theorem date_sort_stable_witness:
  "activeFilter (dated_view Asc) = ByDate \<and> activeFilter (dated_view Desc) = ByDate
   \<and> map (\<lambda>x. getTime example_platform (item_data_criacao x)) (items (dated_view Asc))
       = [Some 1793664000000, Some 1793577600000, Some 1793664000000]
   \<and> items (dated_view Desc) = items (dated_view Asc)
   \<and> filteredItems example_platform (dated_view Asc) = [item_b, item_a, item_c]
   \<and> filteredItems example_platform (dated_view Desc) = [item_a, item_c, item_b]
   \<and> filter (\<lambda>x. item_data_criacao x = late_date)
        (filteredItems example_platform (dated_view Asc)) = [item_a, item_c]
   \<and> filter (\<lambda>x. item_data_criacao x = late_date)
        (filteredItems example_platform (dated_view Desc)) = [item_a, item_c]"
proof -
  have asc: "activeFilter (dated_view Asc) = ByDate"
    and desc: "activeFilter (dated_view Desc) = ByDate"
    by (simp_all add: dated_view_def)
  have parse_asc: "\<forall>x \<in> set (items (dated_view Asc)).
      filterCallback example_platform (dated_view Asc) x
      \<longrightarrow> getTime example_platform (item_data_criacao x) \<noteq> None"
    by (simp add: dated_view_def initial_state_def example_platform_def early_not_late
          item_a_def item_b_def item_c_def)
  have parse_desc: "\<forall>x \<in> set (items (dated_view Desc)).
      filterCallback example_platform (dated_view Desc) x
      \<longrightarrow> getTime example_platform (item_data_criacao x) \<noteq> None"
    by (simp add: dated_view_def initial_state_def example_platform_def early_not_late
          item_a_def item_b_def item_c_def)
  show ?thesis
    using date_sort_stable
        [OF asc parse_asc, of "Some 1793664000000" late_date]
      date_sort_stable
        [OF desc parse_desc, of "Some 1793664000000" late_date]
    by (simp add: dated_view_def example_simps)
qed

text \<open>
  Claim C7 as stated, for every collection, fails in \<open>seven_by_date\<close> on V8. The date of
  the fifth item does not parse, so the comparator returns \<^verbatim>\<open>NaN\<close> for it and the binary
  insertion goes astray: the sixth item is placed after the item of the later day, and
  the seventh, created at the same moment as the sixth, before it. Item 7 ends up
  before item 6.
\<close>

theorem date_sort_unparsable_counterexample:
  "activeFilter seven_by_date = ByDate \<and> sortOrder seven_by_date = Asc
   \<and> map item_id (items seven_by_date) = [1, 2, 3, 4, 5, 6, 7]
   \<and> map (\<lambda>x. getTime example_platform (item_data_criacao x)) (items seven_by_date)
       = [Some 1793577600000, Some 1793577600000, Some 1793664000000, Some 1793577600000,
          None, Some 1793577600000, Some 1793577600000]
   \<and> map item_id (filteredItems example_platform seven_by_date) = [1, 2, 4, 7, 3, 5, 6]"
  by (simp add: seven_by_date_def seven_items_def stored_item_def example_simps
        not_dates v8_sort_def insert_pivot_def Let_def)

subsection \<open>Rendering leaves the stored list alone\<close>

text \<open>
  Claim C8. Rendering, for any settings and any page, changes no array that existed
  before it, and so not the array held in \<open>items\<close>: its elements and their order are the
  same afterwards. The only array \<^verbatim>\<open>sort\<close> reorders is the one \<^verbatim>\<open>filter\<close> has just
  built. What rendering leaves at the references it returns is what \<open>filteredItems\<close>,
  \<open>totalPages\<close> and \<open>currentItems\<close> compute from the state.
\<close>

theorem render_keeps_items:
  assumes "itemsRef < length h"
  shows "(\<forall>r < length h. snd (render pf st itemsRef h) ! r = h ! r)
         \<and> snd (render pf st itemsRef h) ! itemsRef = h ! itemsRef
         \<and> (items st = h ! itemsRef \<longrightarrow>
              snd (render pf st itemsRef h) ! fst (fst (render pf st itemsRef h))
                = filteredItems pf st
              \<and> fst (snd (fst (render pf st itemsRef h))) = totalPages pf st
              \<and> snd (render pf st itemsRef h) ! snd (snd (fst (render pf st itemsRef h)))
                = currentItems pf st)"
  using assms
  by (auto simp: render_def store_filter_def store_sort_def store_slice_def Let_def nth_append
        filteredItems_def totalPages_def currentItems_def)

text \<open>
  A store holding the one array of three items: after rendering in the date mode the
  array is as before, and the sorted array is a second one.
\<close>

theorem render_keeps_items_witness:
  "(0::nat) < length [[item_a, item_b, item_c]]
   \<and> items (dated_view Asc) = [[item_a, item_b, item_c]] ! 0
   \<and> snd (render example_platform (dated_view Asc) 0 [[item_a, item_b, item_c]]) ! 0
       = [item_a, item_b, item_c]
   \<and> snd (render example_platform (dated_view Asc) 0 [[item_a, item_b, item_c]]) ! 1
       = [item_b, item_a, item_c]"
proof -
  have allocated: "(0::nat) < length [[item_a, item_b, item_c]]" by simp
  show ?thesis
    using render_keeps_items [OF allocated, of example_platform "dated_view Asc"]
    by (simp add: dated_view_def render_def store_filter_def store_sort_def store_slice_def
          example_simps)
qed

subsection \<open>Items that share an id\<close>

lemma twins_state:
  "items twins =
     [\<lparr>item_id = 2, item_nome = str ''Task B'', item_descricao = str ''desc'',
       item_data_criacao = early_date, item_data_modificacao = None,
       item_prioridade = Baixa\<rparr>,
      \<lparr>item_id = 2, item_nome = str ''Task C'', item_descricao = str ''desc'',
       item_data_criacao = early_date, item_data_modificacao = None,
       item_prioridade = Baixa\<rparr>]"
  by (simp add: twins_def task_def initial_state_def form_simps)

lemma twins_edit_state:
  "items twins_edit = items twins \<and> editId twins_edit = Some 2
   \<and> nome twins_edit = str ''Renamed'' \<and> descricao twins_edit = str ''desc''
   \<and> prioridade twins_edit = Baixa"
  by (simp add: twins_edit_def twins_state run_def startEdit_def)

text \<open>
  Claim C9. \<^verbatim>\<open>deleteItem\<close> leaves no item with the given id, however many there were:
  the list shrinks by the number of items that had it. A successful \<^verbatim>\<open>updateItem\<close> with
  edit target \<open>e\<close> rewrites the name, the description, the priority and the modification
  date of the item at every position where the id is \<open>e\<close>.
\<close>

theorem shared_id_all_affected:
  "(\<forall>x \<in> set (items (deleteItem i st)). item_id x \<noteq> i)
   \<and> length (items (deleteItem i st)) + length (filter (\<lambda>x. item_id x = i) (items st))
       = length (items st)
   \<and> (fst (updateItem now st) = Committed \<and> editId st = Some e \<longrightarrow>
        length (items (snd (updateItem now st))) = length (items st)
        \<and> (\<forall>k < length (items st). item_id (items st ! k) = e \<longrightarrow>
              items (snd (updateItem now st)) ! k
                = (items st ! k)\<lparr>item_nome := nome st, item_descricao := descricao st,
                     item_prioridade := prioridade st,
                     item_data_modificacao := Some now\<rparr>))"
proof -
  have "length (filter (\<lambda>x. item_id x \<noteq> i) xs) + length (filter (\<lambda>x. item_id x = i) xs)
          = length xs"
    for xs :: "Item list"
    by (induction xs) auto
  then show ?thesis
    by (auto simp: deleteItem_def items_updateItem fst_updateItem split: if_splits)
qed

text \<open>
  The session add, add, delete 1, add ends in \<open>twins\<close>, with two items of id 2. Deleting
  id 2 removes both, and editing the first of them renames both.
\<close>

theorem shared_id_all_affected_witness:
  "map item_id (items twins) = [2, 2]
   \<and> items (deleteItem 2 twins) = []
   \<and> fst (updateItem late_date twins_edit) = Committed \<and> editId twins_edit = Some 2
   \<and> map item_id (items twins_edit) = [2, 2]
   \<and> item_nome (items (snd (updateItem late_date twins_edit)) ! 0) = str ''Renamed''
   \<and> item_nome (items (snd (updateItem late_date twins_edit)) ! 1) = str ''Renamed''
   \<and> item_data_modificacao (items (snd (updateItem late_date twins_edit)) ! 0)
       = Some late_date
   \<and> item_data_modificacao (items (snd (updateItem late_date twins_edit)) ! 1)
       = Some late_date"
proof -
  let ?after = "items (snd (updateItem late_date twins_edit))"
  have ids: "map item_id (items twins) = [2, 2]" "map item_id (items twins_edit) = [2, 2]"
    by (simp_all add: twins_state twins_edit_state)
  have committed: "fst (updateItem late_date twins_edit) = Committed \<and> editId twins_edit = Some 2"
    by (simp add: fst_updateItem twins_edit_state str_def)
  have "\<forall>x \<in> set (items (deleteItem 2 twins)). item_id x \<noteq> 2"
    using shared_id_all_affected [of 2 twins late_date 2] by blast
  then have gone: "items (deleteItem 2 twins) = []"
    by (simp add: deleteItem_def twins_state)
  have every: "\<forall>k < length (items twins_edit). item_id (items twins_edit ! k) = 2 \<longrightarrow>
          ?after ! k
            = (items twins_edit ! k)\<lparr>item_nome := nome twins_edit,
                 item_descricao := descricao twins_edit,
                 item_prioridade := prioridade twins_edit,
                 item_data_modificacao := Some late_date\<rparr>"
    using shared_id_all_affected [of 2 twins_edit late_date 2] committed by blast
  have first: "?after ! 0
                 = (items twins_edit ! 0)\<lparr>item_nome := nome twins_edit,
                      item_descricao := descricao twins_edit,
                      item_prioridade := prioridade twins_edit,
                      item_data_modificacao := Some late_date\<rparr>"
    using every [rule_format, of 0] by (simp add: twins_edit_state twins_state)
  have second: "?after ! 1
                 = (items twins_edit ! 1)\<lparr>item_nome := nome twins_edit,
                      item_descricao := descricao twins_edit,
                      item_prioridade := prioridade twins_edit,
                      item_data_modificacao := Some late_date\<rparr>"
    using every [rule_format, of 1] by (simp add: twins_edit_state twins_state)
  show ?thesis
    unfolding first second using ids committed gone
    by (simp add: twins_edit_state)
qed

subsection \<open>The validity flag\<close>

text \<open>
  Claim C10. \<^verbatim>\<open>clearForm\<close> empties the name and the description, sets the priority to
  \<^verbatim>\<open>"baixa"\<close> and the edit target to \<^verbatim>\<open>null\<close>, and leaves \<open>isValid\<close> as it is. No handler
  other than the two that call \<^verbatim>\<open>validate\<close> changes \<open>isValid\<close>, and those two set it to the
  result of \<^verbatim>\<open>validate\<close>. So after a rejected add or update, \<open>isValid\<close> is still false
  once \<^verbatim>\<open>Cancelar\<close> has been clicked.
\<close>

theorem clearForm_keeps_isValid:
  "isValid (clearForm st) = isValid st
   \<and> nome (clearForm st) = [] \<and> descricao (clearForm st) = []
   \<and> prioridade (clearForm st) = Baixa \<and> editId (clearForm st) = None
   \<and> ((\<forall>now. ev \<noteq> ClickAdicionar now \<and> ev \<noteq> ClickAtualizar now) \<longrightarrow>
        isValid (handle pf ev st) = isValid st)
   \<and> isValid (handle pf (ClickAdicionar now) st) = fst (validate st)
   \<and> isValid (handle pf (ClickAtualizar now) st) = fst (validate st)
   \<and> (\<not> fst (validate st) \<longrightarrow>
        \<not> isValid (handle pf ClickCancelar (handle pf (ClickAdicionar now) st))
        \<and> \<not> isValid (handle pf ClickCancelar (handle pf (ClickAtualizar now) st)))"
  by (cases ev)
     (auto simp: clearForm_def addItem_def updateItem_def validate_def Let_def deleteItem_def
        startEdit_def)

text \<open>
  The form \<^verbatim>\<open>("Hi", "ok")\<close>: the click on \<^verbatim>\<open>Adicionar Item\<close> is rejected, and the flag is
  still false after \<^verbatim>\<open>Cancelar\<close>, which has emptied the name.
\<close>

theorem clearForm_keeps_isValid_witness:
  "\<not> fst (validate short_form)
   \<and> (\<forall>now. ClickCancelar \<noteq> ClickAdicionar now \<and> ClickCancelar \<noteq> ClickAtualizar now)
   \<and> isValid short_form
   \<and> \<not> isValid (handle example_platform (ClickAdicionar early_date) short_form)
   \<and> \<not> isValid (handle example_platform ClickCancelar
                   (handle example_platform (ClickAdicionar early_date) short_form))
   \<and> nome (handle example_platform ClickCancelar
              (handle example_platform (ClickAdicionar early_date) short_form)) = []"
  using clearForm_keeps_isValid [of short_form ClickCancelar example_platform early_date]
  by (simp add: short_form_def initial_state_def form_simps)


end
